theory Spec2Isabelle
  imports Main "HOL-Library.Multiset" "HOL-Library.Monad_Syntax"
begin

text \<open>
  The event pipeline of the repository: the batch script \<open>scripts/fetch-events.ts\<close>
  and the on-demand \<open>POST\<close> handler, which share the query planner, the search
  collector, the deduplicator, the context assembler and the event schema. The search
  service, the language model, the clock and the environment are parameters of the
  model; console output and the write of the output file are left out.
\<close>

section \<open>Strings of the source language\<close>

text \<open>
  A TypeScript string is a sequence of UTF-16 code units; \<open>length\<close>, \<open>slice\<close>,
  \<open>padStart\<close> and \<open>includes\<close> count code units. A string is therefore a list of
  code units (numbers below 65536), and an ASCII literal of the source is written
  \<open>ascii ''...''\<close>. Characters outside ASCII are given by their code unit.
\<close>

type_synonym jsstring = "nat list"

definition ascii :: "string \<Rightarrow> jsstring" where
  "ascii s = map of_char s"

text \<open>\<open>String(n)\<close> and template interpolation of a non-negative integer: its decimal digits.\<close>

fun digits :: "nat \<Rightarrow> jsstring" where
  "digits n = (if n < 10 then [48 + n] else digits (n div 10) @ [48 + n mod 10])"

declare digits.simps [simp del]

definition String_of_int :: "int \<Rightarrow> jsstring" where
  "String_of_int i = (if i < 0 then ascii ''-'' @ digits (nat (- i)) else digits (nat i))"

text \<open>\<open>s.padStart(n, c)\<close> for a one-character pad string \<open>c\<close>.\<close>

definition padStart :: "nat \<Rightarrow> nat \<Rightarrow> jsstring \<Rightarrow> jsstring" where
  "padStart n c s = replicate (n - length s) c @ s"

text \<open>\<open>xs.join(sep)\<close>\<close>

fun join :: "jsstring \<Rightarrow> jsstring list \<Rightarrow> jsstring" where
  "join sep [] = []"
| "join sep [x] = x"
| "join sep (x # y # ys) = x @ sep @ join sep (y # ys)"

text \<open>\<open>s.includes(sub)\<close>: \<open>sub\<close> occurs in \<open>s\<close> as a contiguous run of code units.\<close>

fun includes_js :: "jsstring \<Rightarrow> jsstring \<Rightarrow> bool" where
  "includes_js [] sub = (sub = [])"
| "includes_js (c # s) sub = (take (length sub) (c # s) = sub \<or> includes_js s sub)"

section \<open>Raw hits and the deduplicator\<close>

text \<open>One element of \<open>result.results\<close> as the pipeline reads it: \<open>url\<close>, \<open>title\<close>, \<open>content\<close>.\<close>

record rawhit =
  url :: jsstring
  title :: jsstring
  content :: jsstring

text \<open>
  The built-in \<open>Map\<close>, as an association list in insertion order. \<open>map_set\<close> is
  \<open>Map.prototype.set\<close>: a key already present keeps its position and takes the new
  value, a new key is appended. \<open>new_Map\<close> is the constructor applied to an iterable
  of entries (it calls \<open>set\<close> on each entry in turn), \<open>map_values\<close> is \<open>values()\<close>.
\<close>

fun map_set :: "('k \<times> 'v) list \<Rightarrow> 'k \<Rightarrow> 'v \<Rightarrow> ('k \<times> 'v) list" where
  "map_set [] k v = [(k, v)]"
| "map_set ((k', v') # m) k v =
     (if k' = k then (k', v) # m else (k', v') # map_set m k v)"

definition new_Map :: "('k \<times> 'v) list \<Rightarrow> ('k \<times> 'v) list" where
  "new_Map entries = foldl (\<lambda>m (k, v). map_set m k v) [] entries"

definition map_values :: "('k \<times> 'v) list \<Rightarrow> 'v list" where
  "map_values m = map snd m"

text \<open>
  \<open>const uniqueResults = Array.from(new Map(allRawResults.map(item => [item.url, item])).values())\<close>
\<close>

definition uniqueResults :: "rawhit list \<Rightarrow> rawhit list" where
  "uniqueResults allRawResults =
     map_values (new_Map (map (\<lambda>item. (rawhit.url item, item)) allRawResults))"

section \<open>Search collector\<close>

record site =
  name :: jsstring
  domain :: jsstring

text \<open>The non-ASCII site names are spelled by code unit (two, two, two and six characters).\<close>

definition TARGET_SITES :: "site list" where
  "TARGET_SITES =
     [\<lparr>name = ascii ''KKTIX'', domain = ascii ''kktix.com''\<rparr>,
      \<lparr>name = [23532, 23439], domain = ascii ''kham.com.tw''\<rparr>,
      \<lparr>name = [24180, 20195], domain = ascii ''ticket.com.tw''\<rparr>,
      \<lparr>name = [36960, 22823], domain = ascii ''ticketplus.com.tw''\<rparr>,
      \<lparr>name = ascii ''iNDIEVOX'', domain = ascii ''indievox.com''\<rparr>,
      \<lparr>name = ascii ''BILLBOARD LIVE TAIPEI'', domain = ascii ''billboardlivetaipei.tw''\<rparr>,
      \<lparr>name = [33775, 23665, 25991, 21109, 22290, 21312], domain = ascii ''huashan1914.com''\<rparr>]"

datatype search_depth = basic | advanced

record search_options =
  maxResults :: nat
  search_depth :: search_depth

text \<open>
  A thrown value, as the handler's catch block tells them apart: an \<open>Error\<close> instance
  with its \<open>message\<close>, or any other value with the string \<open>String(error)\<close> gives for it.
\<close>

datatype thrown = ErrorObject jsstring | OtherThrown jsstring

text \<open>
  The search collaborator \<open>tvly.search(query, options)\<close>: it returns \<open>result.results\<close>
  or throws.
\<close>

type_synonym search_capability = "jsstring \<Rightarrow> search_options \<Rightarrow> thrown + rawhit list"

definition site_query :: "jsstring \<Rightarrow> site \<Rightarrow> jsstring" where
  "site_query searchString site =
     ascii ''site:'' @ domain site @ ascii '' ( '' @ searchString @ ascii '' )''"

definition site_options :: "site \<Rightarrow> search_options" where
  "site_options site =
     \<lparr>maxResults = 15,
      search_depth = (if name site = ascii ''BILLBOARD LIVE TAIPEI'' then advanced else basic)\<rparr>"

text \<open>
  The body of one \<open>searchPromises\<close> callback: the \<open>try\<close> returns the results, the
  \<open>catch\<close> logs and returns the empty array. (Console output is not part of the model.)
\<close>

definition searchPromise :: "search_capability \<Rightarrow> jsstring \<Rightarrow> site \<Rightarrow> rawhit list" where
  "searchPromise tvly searchString site =
     (let query = site_query searchString site
      in case tvly query (site_options site) of
           Inr results \<Rightarrow> results
         | Inl e \<Rightarrow> [])"

text \<open>\<open>(await Promise.all(searchPromises)).flat()\<close>: the results in the order of the sites.\<close>

definition allRawResults :: "search_capability \<Rightarrow> jsstring \<Rightarrow> site list \<Rightarrow> rawhit list" where
  "allRawResults tvly searchString sites = concat (map (searchPromise tvly searchString) sites)"

section \<open>Context assembler\<close>

text \<open>
  One block per unique hit: \<open>[ID:i]\<close>, the title label (U+6A19 U+984C), the source label
  (U+4F86 U+6E90) and the snippet label (U+5167 U+6587 U+6458 U+8981), the content cut by
  \<open>slice(0, 1000)\<close>; 10 is the line feed.
\<close>

definition contextBlock :: "nat \<times> rawhit \<Rightarrow> jsstring" where
  "contextBlock ir =
     (case ir of (i, r) \<Rightarrow>
        ascii ''[ID:'' @ digits i @ ascii ''] '' @ [27161, 38988] @ ascii '': '' @ title r @ [10]
        @ [20358, 28304] @ ascii '': '' @ url r @ [10]
        @ [20839, 25991, 25688, 35201] @ ascii '': '' @ take 1000 (content r))"

definition searchContext :: "rawhit list \<Rightarrow> jsstring" where
  "searchContext unique =
     join ([10, 10] @ ascii ''---'' @ [10, 10]) (map contextBlock (enumerate 0 unique))"

section \<open>Query planner\<close>

text \<open>
  A \<open>Date\<close> object as the planner reads it: the local calendar fields returned by
  \<open>getFullYear()\<close>, \<open>getMonth()\<close> (0 to 11) and \<open>getDate()\<close> (1 to 31). The time of
  day plays no part in the planner and is left out.
\<close>

record jsdate =
  getFullYear :: int
  getMonth :: nat
  getDate :: nat

definition isLeap :: "int \<Rightarrow> bool" where
  "isLeap y = (y mod 4 = 0 \<and> (y mod 100 \<noteq> 0 \<or> y mod 400 = 0))"

definition daysInMonth :: "int \<Rightarrow> nat \<Rightarrow> nat" where
  "daysInMonth y m =
     (if m = 1 then (if isLeap y then 29 else 28)
      else if m = 3 \<or> m = 5 \<or> m = 8 \<or> m = 10 then 30 else 31)"

text \<open>
  \<open>d.setMonth(m)\<close> keeps the day of the month and sets the month; the language then
  normalises the date: months past December carry into the year, and a day past the end
  of the month runs on into the next month (31 January set to month 1 is 3 March, or
  2 March in a leap year). A day of the month is at most 31 and a month has at least 28
  days, so the day runs on by at most one month.
\<close>

definition setMonth :: "jsdate \<Rightarrow> nat \<Rightarrow> jsdate" where
  "setMonth d m =
     (let y = getFullYear d + int (m div 12);
          mo = m mod 12;
          n = daysInMonth y mo
      in if getDate d \<le> n then \<lparr>getFullYear = y, getMonth = mo, getDate = getDate d\<rparr>
         else if mo = 11 then \<lparr>getFullYear = y + 1, getMonth = 0, getDate = getDate d - n\<rparr>
         else \<lparr>getFullYear = y, getMonth = mo + 1, getDate = getDate d - n\<rparr>)"

definition formatDate :: "jsdate \<Rightarrow> jsstring" where
  "formatDate date =
     (let yyyy = getFullYear date;
          mm = padStart 2 48 (digits (getMonth date + 1));
          dd = padStart 2 48 (digits (getDate date))
      in String_of_int yyyy @ ascii ''/'' @ mm @ ascii ''/'' @ dd)"

record date_params =
  startDate :: jsstring
  endDate :: jsstring
  searchString :: jsstring

text \<open>One pass of the keyword loop, for loop index \<open>i\<close>; 34 is the double quote, 26376 the
  character U+6708 (month).\<close>

definition monthKeyword :: "jsdate \<Rightarrow> nat \<Rightarrow> jsstring" where
  "monthKeyword now i =
     (let d = setMonth now (getMonth now + i);
          year = getFullYear d;
          month = getMonth d + 1
      in [34] @ String_of_int year @ ascii '' '' @ digits month @ [26376] @ [34])"

definition getDynamicDateParams :: "jsdate \<Rightarrow> date_params" where
  "getDynamicDateParams now =
     (let startDate = formatDate now;
          futureDate = setMonth now (getMonth now + 2);
          endDate = formatDate futureDate;
          monthKeywords = map (monthKeyword now) [0..<3];
          searchString = join (ascii '' OR '') monthKeywords
      in \<lparr>startDate = startDate, endDate = endDate, searchString = searchString\<rparr>)"

section \<open>Event schema\<close>

text \<open>A parsed JSON value. No number is read by the schema or the handler, so numbers
  are kept as integers.\<close>

datatype json =
    JNull
  | JBool bool
  | JNum int
  | JStr jsstring
  | JArr "json list"
  | JObj "(jsstring \<times> json) list"

record session =
  location :: jsstring
  date :: "jsstring list"
  url :: jsstring

record event =
  description :: jsstring
  title :: jsstring
  image_url :: "jsstring option"
  sessions :: "session list"
  category :: jsstring
  tags :: "jsstring list option"
  url :: jsstring
  source :: jsstring

text \<open>
  The schema combinators used by \<open>EventSchema\<close>, each returning the parsed value or
  \<open>None\<close> when the value is rejected. \<open>field\<close> reads a property of an object (keys of a
  parsed object are unique); a property that is absent is \<open>undefined\<close>, which only an
  \<open>optional()\<close> schema accepts.
\<close>

definition z_string :: "json \<Rightarrow> jsstring option" where
  "z_string v = (case v of JStr s \<Rightarrow> Some s | _ \<Rightarrow> None)"

definition z_enum :: "jsstring list \<Rightarrow> json \<Rightarrow> jsstring option" where
  "z_enum values v = (case v of JStr s \<Rightarrow> (if s \<in> set values then Some s else None) | _ \<Rightarrow> None)"

definition z_array :: "(json \<Rightarrow> 'a option) \<Rightarrow> json \<Rightarrow> 'a list option" where
  "z_array element v =
     (case v of
        JArr xs \<Rightarrow> (if list_all (\<lambda>x. element x \<noteq> None) xs then Some (map (\<lambda>x. the (element x)) xs)
                    else None)
      | _ \<Rightarrow> None)"

definition field :: "(jsstring \<times> json) list \<Rightarrow> string \<Rightarrow> json option" where
  "field fs k = map_of fs (ascii k)"

definition required :: "(json \<Rightarrow> 'a option) \<Rightarrow> json option \<Rightarrow> 'a option" where
  "required schema p = (case p of None \<Rightarrow> None | Some v \<Rightarrow> schema v)"

definition optional :: "(json \<Rightarrow> 'a option) \<Rightarrow> json option \<Rightarrow> 'a option option" where
  "optional schema p = (case p of None \<Rightarrow> Some None | Some v \<Rightarrow> map_option Some (schema v))"

text \<open>The five category labels and the eight source labels, non-ASCII ones by code unit.\<close>

definition EventCategoryEnum :: "jsstring list" where
  "EventCategoryEnum =
     [28436, 21809, 26371] # [23637, 35261] # [34920, 28436, 34269, 34899]
       # [29983, 27963, 20241, 38290] # [20854, 20182] # []"

definition SourceEnum :: "jsstring list" where
  "SourceEnum =
     [ascii ''KKTIX'', [23532, 23439], [36960, 22823], [24180, 20195], ascii ''iNDIEVOX'',
      ascii ''BILLBOARD LIVE TAIPEI'', [33775, 23665, 25991, 21109, 22290, 21312],
      [20854, 20182]]"

text \<open>
  The element schema of \<open>sessions\<close>:
  \<open>z.object({ location: z.string(), date: z.array(z.string()), url: z.string() })\<close>.
\<close>

definition SessionSchema :: "json \<Rightarrow> session option" where
  "SessionSchema v =
     (case v of
        JObj fs \<Rightarrow>
          do {
            l \<leftarrow> required z_string (field fs ''location'');
            d \<leftarrow> required (z_array z_string) (field fs ''date'');
            u \<leftarrow> required z_string (field fs ''url'');
            Some \<lparr>location = l, date = d, url = u\<rparr>
          }
      | _ \<Rightarrow> None)"

definition EventObjectSchema :: "json \<Rightarrow> event option" where
  "EventObjectSchema v =
     (case v of
        JObj fs \<Rightarrow>
          do {
            de \<leftarrow> required z_string (field fs ''description'');
            ti \<leftarrow> required z_string (field fs ''title'');
            im \<leftarrow> optional z_string (field fs ''image_url'');
            se \<leftarrow> required (z_array SessionSchema) (field fs ''sessions'');
            ca \<leftarrow> required (z_enum EventCategoryEnum) (field fs ''category'');
            ta \<leftarrow> optional (z_array z_string) (field fs ''tags'');
            ur \<leftarrow> required z_string (field fs ''url'');
            so \<leftarrow> required (z_enum SourceEnum) (field fs ''source'');
            Some \<lparr>description = de, title = ti, image_url = im, sessions = se, category = ca,
                  tags = ta, url = ur, source = so\<rparr>
          }
      | _ \<Rightarrow> None)"

text \<open>\<open>EventSchema\<close>: \<open>z.object({ events: z.array(...) })\<close>; the parsed \<open>events\<close>.\<close>

definition EventSchema :: "json \<Rightarrow> event list option" where
  "EventSchema v =
     (case v of
        JObj fs \<Rightarrow> required (z_array EventObjectSchema) (field fs ''events'')
      | _ \<Rightarrow> None)"

section \<open>Normalizer and sorter\<close>

text \<open>
  \<open>new Date(a.sessions[0]?.date[0]).valueOf()\<close>: the time value of the first date of
  the first session. \<open>parse\<close> is the language's date parser, giving the time value in
  milliseconds or \<open>None\<close> for an invalid date (the number \<open>NaN\<close>). With no session, or
  with an empty date array, the argument is \<open>undefined\<close> and the date is invalid.
\<close>

definition dateValue :: "(jsstring \<Rightarrow> int option) \<Rightarrow> event \<Rightarrow> int option" where
  "dateValue parse a =
     (case sessions a of
        [] \<Rightarrow> None
      | s # _ \<Rightarrow> (case date s of [] \<Rightarrow> None | d # _ \<Rightarrow> parse d))"

text \<open>The comparator \<open>(a, b) => dateA - dateB\<close>; a difference with \<open>NaN\<close> is \<open>NaN\<close>.\<close>

definition compareFn :: "(jsstring \<Rightarrow> int option) \<Rightarrow> event \<Rightarrow> event \<Rightarrow> int option" where
  "compareFn parse a b =
     (let dateA = dateValue parse a;
          dateB = dateValue parse b
      in case (dateA, dateB) of (Some x, Some y) \<Rightarrow> Some (x - y) | _ \<Rightarrow> None)"

text \<open>
  \<open>Array.prototype.sort(comparefn)\<close>. The language reads a comparator result of \<open>NaN\<close>
  as \<open>+0\<close> (\<open>sortCompare\<close>) and requires the sort to be stable; for a consistent
  comparator this fixes the result, which a stable insertion sort computes. Where the
  comparator is not consistent the language leaves the order to the implementation;
  the insertion sort is then one order an implementation may produce.
\<close>

definition sortCompare :: "('a \<Rightarrow> 'a \<Rightarrow> int option) \<Rightarrow> 'a \<Rightarrow> 'a \<Rightarrow> int" where
  "sortCompare comparefn x y = (case comparefn x y of None \<Rightarrow> 0 | Some v \<Rightarrow> v)"

fun sort_insert :: "('a \<Rightarrow> 'a \<Rightarrow> int option) \<Rightarrow> 'a \<Rightarrow> 'a list \<Rightarrow> 'a list" where
  "sort_insert comparefn x [] = [x]"
| "sort_insert comparefn x (y # ys) =
     (if sortCompare comparefn x y \<le> 0 then x # y # ys else y # sort_insert comparefn x ys)"

definition array_sort :: "('a \<Rightarrow> 'a \<Rightarrow> int option) \<Rightarrow> 'a list \<Rightarrow> 'a list" where
  "array_sort comparefn xs = foldr (sort_insert comparefn) xs []"

text \<open>
  The ordering the specification asks of the collection, written from its words: no
  event comes before an event with an earlier leading date. Where one of two events has
  no valid leading date, the pair is not constrained.
\<close>

definition date_le :: "(jsstring \<Rightarrow> int option) \<Rightarrow> event \<Rightarrow> event \<Rightarrow> bool" where
  "date_le parse a b =
     (case (dateValue parse a, dateValue parse b) of (Some x, Some y) \<Rightarrow> x \<le> y | _ \<Rightarrow> True)"

definition nondecreasing_by_date :: "(jsstring \<Rightarrow> int option) \<Rightarrow> event list \<Rightarrow> bool" where
  "nondecreasing_by_date parse evs = sorted_wrt (date_le parse) evs"

section \<open>The pipeline\<close>

text \<open>
  What a run takes from outside: the current date, the two collaborators, the error the
  extraction library throws when the model's object does not match the schema, the
  date parser of the language and the error thrown on destructuring \<open>null\<close>.
\<close>

record world =
  today :: jsdate
  tvly_search :: search_capability
  llm_object :: "jsstring \<Rightarrow> thrown + json"
  schema_mismatch :: thrown
  dateParse :: "jsstring \<Rightarrow> int option"
  null_destructure :: thrown

text \<open>
  The fixed prose of the prompt template, between the interpolated values; it is long,
  plays no part in any computation and is kept as a parameter. The batch script and the
  handler use the same prose with different indentation.
\<close>

record prompt_text =
  before_today :: jsstring
  before_range :: jsstring
  between_dates :: jsstring
  before_data :: jsstring
  after_data :: jsstring

definition extraction_prompt :: "prompt_text \<Rightarrow> jsstring \<Rightarrow> jsstring \<Rightarrow> jsstring \<Rightarrow> jsstring" where
  "extraction_prompt txt start end ctx =
     before_today txt @ start @ before_range txt @ start @ between_dates txt @ end
     @ before_data txt @ ctx @ after_data txt"

text \<open>
  \<open>generateObject({ model, schema: EventSchema, prompt })\<close> followed by
  \<open>result.object.events\<close>: the call throws what the model call throws, or the schema
  error when the object is rejected by \<open>EventSchema\<close>.
\<close>

definition generateObject :: "world \<Rightarrow> jsstring \<Rightarrow> thrown + event list" where
  "generateObject w p =
     (case llm_object w p of
        Inl e \<Rightarrow> Inl e
      | Inr obj \<Rightarrow> (case EventSchema obj of None \<Rightarrow> Inl (schema_mismatch w) | Some evs \<Rightarrow> Inr evs))"

text \<open>Both entry points run the same steps up to the extraction call.\<close>

definition extraction :: "world \<Rightarrow> prompt_text \<Rightarrow> site list \<Rightarrow> thrown + event list" where
  "extraction w txt sites =
     (let params = getDynamicDateParams (today w);
          allRaw = allRawResults (tvly_search w) (searchString params) sites;
          unique = uniqueResults allRaw;
          ctx = searchContext unique
      in generateObject w (extraction_prompt txt (startDate params) (endDate params) ctx))"

text \<open>
  The batch script's \<open>main()\<close>, for a list of sites: \<open>Inr\<close> holds the events written to
  \<open>public/events.json\<close>, \<open>Inl\<close> the error that reaches \<open>main().catch\<close> and ends the
  process with exit code 1.
\<close>

definition main_with :: "world \<Rightarrow> prompt_text \<Rightarrow> site list \<Rightarrow> thrown + event list" where
  "main_with w txt sites =
     (case extraction w txt sites of
        Inl err \<Rightarrow> Inl err
      | Inr events \<Rightarrow> Inr (array_sort (compareFn (dateParse w)) events))"

definition main :: "world \<Rightarrow> prompt_text \<Rightarrow> thrown + event list" where
  "main w txt = main_with w txt TARGET_SITES"

section \<open>On-demand handler\<close>

datatype body = EventsBody "event list" | ErrorBody jsstring jsstring

record response =
  status :: nat
  body :: body

text \<open>
  \<open>const { prompt } = await req.json()\<close>: destructuring \<open>null\<close> throws, any other value
  gives its \<open>prompt\<close> property (\<open>undefined\<close>, here \<open>None\<close>, when there is none).
\<close>

definition destructure_prompt :: "world \<Rightarrow> json \<Rightarrow> thrown + json option" where
  "destructure_prompt w v =
     (case v of
        JNull \<Rightarrow> Inl (null_destructure w)
      | JObj fs \<Rightarrow> Inr (field fs ''prompt'')
      | _ \<Rightarrow> Inr None)"

text \<open>The \<open>try\<close> block; \<open>req_json\<close> is the outcome of \<open>await req.json()\<close>.\<close>

definition POST_try :: "world \<Rightarrow> prompt_text \<Rightarrow> thrown + json \<Rightarrow> thrown + response" where
  "POST_try w txt req_json =
     (case req_json of
        Inl e \<Rightarrow> Inl e
      | Inr v \<Rightarrow>
          (case destructure_prompt w v of
             Inl e \<Rightarrow> Inl e
           | Inr prompt \<Rightarrow>
               (case extraction w txt TARGET_SITES of
                  Inl e \<Rightarrow> Inl e
                | Inr events \<Rightarrow> Inr \<lparr>status = 200, body = EventsBody events\<rparr>)))"

text \<open>The \<open>catch\<close> block. The two fixed messages are spelled by code unit.\<close>

definition error_message :: "thrown \<Rightarrow> jsstring" where
  "error_message error = (case error of ErrorObject m \<Rightarrow> m | OtherThrown s \<Rightarrow> s)"

definition quota_text :: jsstring where
  "quota_text =
     ascii ''API '' @ [38989, 24230, 24050, 29992, 23436, 65292, 35531, 31245, 24460, 20877,
       35430, 25110, 26356, 25563] @ ascii '' API Key'' @ [12290]"

definition POST_catch :: "thrown \<Rightarrow> response" where
  "POST_catch error =
     (let message = error_message error
      in if includes_js message (ascii ''quota'') \<or> includes_js message (ascii ''429'')
            \<or> includes_js message (ascii ''exceeded'')
         then \<lparr>status = 429, body = ErrorBody (ascii ''QUOTA_EXCEEDED'') quota_text\<rparr>
         else \<lparr>status = 500,
               body = ErrorBody (ascii ''INTERNAL_ERROR'')
                        ([20282, 26381, 22120, 37679, 35492, 65306] @ message)\<rparr>)"

definition POST :: "world \<Rightarrow> prompt_text \<Rightarrow> thrown + json \<Rightarrow> response" where
  "POST w txt req_json =
     (case POST_try w txt req_json of Inr r \<Rightarrow> r | Inl error \<Rightarrow> POST_catch error)"

section \<open>Configuration\<close>

text \<open>
  \<open>process.env\<close> is a map from variable names to strings. The batch script hands the
  language-model provider \<open>process.env.GOOGLE_GENERATIVE_AI_API_KEY\<close> and the search
  client a string literal written in the script (kept as the parameter \<open>literal\<close>); the
  handler hands the search client \<open>process.env.TAVILY_API_KEY\<close>. \<open>None\<close> is \<open>undefined\<close>.
\<close>

type_synonym environment = "jsstring \<rightharpoonup> jsstring"

definition googleAI_apiKey :: "environment \<Rightarrow> jsstring option" where
  "googleAI_apiKey env = env (ascii ''GOOGLE_GENERATIVE_AI_API_KEY'')"

definition script_tavily_apiKey :: "jsstring \<Rightarrow> environment \<Rightarrow> jsstring option" where
  "script_tavily_apiKey literal env = Some literal"

definition handler_tavily_apiKey :: "environment \<Rightarrow> jsstring option" where
  "handler_tavily_apiKey env = env (ascii ''TAVILY_API_KEY'')"

section \<open>Order of first occurrence\<close>

text \<open>
  The order the claim about ordering speaks of, written from its words: the distinct
  elements of a list, each at the place of its first occurrence.
\<close>

fun first_occurrences :: "'a list \<Rightarrow> 'a list" where
  "first_occurrences [] = []"
| "first_occurrences (x # xs) = x # first_occurrences (filter (\<lambda>y. y \<noteq> x) xs)"


section \<open>Sample inputs\<close>

text \<open>Three hits, the first and the third with the same link.\<close>

definition hit_a1 :: rawhit where
  "hit_a1 = \<lparr>rawhit.url = ascii ''https://kktix.com/a'',
       rawhit.title = ascii ''first'', content = ascii ''x''\<rparr>"

definition hit_b :: rawhit where
  "hit_b = \<lparr>rawhit.url = ascii ''https://kktix.com/b'',
       rawhit.title = ascii ''other'', content = ascii ''y''\<rparr>"

definition hit_a2 :: rawhit where
  "hit_a2 = \<lparr>rawhit.url = ascii ''https://kktix.com/a'',
       rawhit.title = ascii ''second'', content = ascii ''z''\<rparr>"

text \<open>
  A date parser for the samples, standing in for the language's own on the two forms the
  prompts ask for, \<open>YYYY/MM/DD\<close> and \<open>YYYY-MM-DD\<close>: the time value of that day's
  midnight, counted from 1 January 1970; any other string is an invalid date.
\<close>

definition decimal :: "jsstring \<Rightarrow> nat option" where
  "decimal s =
     (if s \<noteq> [] \<and> list_all (\<lambda>c. 48 \<le> c \<and> c \<le> 57) s
      then Some (foldl (\<lambda>n c. 10 * n + (c - 48)) 0 s) else None)"

definition DayFromYear :: "int \<Rightarrow> int" where
  "DayFromYear y =
     365 * (y - 1970) + (y - 1969) div 4 - (y - 1901) div 100 + (y - 1601) div 400"

definition dayNumber :: "int \<Rightarrow> nat \<Rightarrow> nat \<Rightarrow> int" where
  "dayNumber y m d = DayFromYear y + int (sum_list (map (daysInMonth y) [0..<m])) + int d - 1"

definition parseYMD :: "jsstring \<Rightarrow> int option" where
  "parseYMD s =
     (if length s = 10 \<and> s ! 4 = s ! 7 \<and> (s ! 4 = 47 \<or> s ! 4 = 45)
      then (case (decimal (take 4 s), decimal (take 2 (drop 5 s)), decimal (drop 8 s)) of
              (Some y, Some m, Some d) \<Rightarrow>
                (if 1 \<le> m \<and> m \<le> 12 \<and> 1 \<le> d \<and> d \<le> daysInMonth (int y) (m - 1)
                 then Some (dayNumber (int y) (m - 1) d * 86400000) else None)
            | _ \<Rightarrow> None)
      else None)"

text \<open>
  Three events as the extraction step may return them: one in March, one whose only
  session has an empty date array, one in January.
\<close>

definition sample_event :: "jsstring \<Rightarrow> session list \<Rightarrow> event" where
  "sample_event t ss =
     \<lparr>description = ascii ''about'', title = t, image_url = None, sessions = ss,
      category = [20854, 20182], tags = None, url = ascii ''https://kktix.com/e'',
      source = ascii ''KKTIX''\<rparr>"

definition sample_session :: "jsstring list \<Rightarrow> session" where
  "sample_session ds =
     \<lparr>location = ascii ''Taipei'', date = ds, session.url = ascii ''https://kktix.com/t''\<rparr>"

definition ev_march :: event where
  "ev_march = sample_event (ascii ''March'') [sample_session [ascii ''2026/03/01'']]"

definition ev_undated :: event where
  "ev_undated = sample_event (ascii ''Undated'') [sample_session []]"

definition ev_january :: event where
  "ev_january = sample_event (ascii ''January'') [sample_session [ascii ''2026/01/10'']]"

text \<open>The same events as the object the language model returns.\<close>

definition sample_session_json :: "jsstring list \<Rightarrow> json" where
  "sample_session_json ds =
     JObj [(ascii ''location'', JStr (ascii ''Taipei'')),
           (ascii ''date'', JArr (map JStr ds)),
           (ascii ''url'', JStr (ascii ''https://kktix.com/t''))]"

definition sample_event_json :: "jsstring \<Rightarrow> json list \<Rightarrow> json" where
  "sample_event_json t ss =
     JObj [(ascii ''description'', JStr (ascii ''about'')),
           (ascii ''title'', JStr t),
           (ascii ''sessions'', JArr ss),
           (ascii ''category'', JStr [20854, 20182]),
           (ascii ''url'', JStr (ascii ''https://kktix.com/e'')),
           (ascii ''source'', JStr (ascii ''KKTIX''))]"

definition sample_object :: json where
  "sample_object =
     JObj [(ascii ''events'',
            JArr [sample_event_json (ascii ''March'') [sample_session_json [ascii ''2026/03/01'']],
                  sample_event_json (ascii ''Undated'') [sample_session_json []],
                  sample_event_json (ascii ''January'')
                    [sample_session_json [ascii ''2026/01/10'']]])]"

text \<open>
  A world for the samples: on 15 January 2026 the search that asks for the
  \<open>advanced\<close> depth fails and every other search returns the three sample hits; the
  language model returns the sample object. In the second world the language model
  call fails with a message that holds the word exceeded.
\<close>

definition sample_world :: world where
  "sample_world =
     \<lparr>today = \<lparr>getFullYear = 2026, getMonth = 0, getDate = 15\<rparr>,
      tvly_search = (\<lambda>query opts. if search_depth opts = advanced
                       then Inl (ErrorObject (ascii ''fetch failed''))
                       else Inr [hit_a1, hit_b, hit_a2]),
      llm_object = (\<lambda>p. Inr sample_object),
      schema_mismatch = ErrorObject (ascii ''No object generated''),
      dateParse = parseYMD,
      null_destructure = ErrorObject (ascii ''Cannot destructure'')\<rparr>"

definition exceeded_world :: world where
  "exceeded_world =
     sample_world\<lparr>llm_object := (\<lambda>p. Inl (ErrorObject (ascii ''limit exceeded'')))\<rparr>"

text \<open>The object and the world with the two dated events only, and a world in which the
  language model call fails with a message of no special form.\<close>

definition dated_object :: json where
  "dated_object =
     JObj [(ascii ''events'',
            JArr [sample_event_json (ascii ''March'') [sample_session_json [ascii ''2026/03/01'']],
                  sample_event_json (ascii ''January'')
                    [sample_session_json [ascii ''2026/01/10'']]])]"

definition dated_world :: world where
  "dated_world = sample_world\<lparr>llm_object := (\<lambda>p. Inr dated_object)\<rparr>"

definition offline_world :: world where
  "offline_world =
     sample_world\<lparr>llm_object := (\<lambda>p. Inl (ErrorObject (ascii ''network down'')))\<rparr>"

definition sample_text :: prompt_text where
  "sample_text =
     \<lparr>before_today = ascii ''Today: '', before_range = ascii '' Range: '',
      between_dates = ascii '' ~ '', before_data = ascii '' Data: '', after_data = []\<rparr>"

definition kktix :: site where
  "kktix = \<lparr>name = ascii ''KKTIX'', domain = ascii ''kktix.com''\<rparr>"

definition billboard :: site where
  "billboard =
     \<lparr>name = ascii ''BILLBOARD LIVE TAIPEI'', domain = ascii ''billboardlivetaipei.tw''\<rparr>"

section \<open>Properties of the deduplicator\<close>

lemma keys_map_set:
  "map fst (map_set m k v) = (if k \<in> fst ` set m then map fst m else map fst m @ [k])"
proof (induction m)
  case Nil
  show ?case by simp
next
  case (Cons e m)
  obtain k' v' where e: "e = (k', v')" by (cases e)
  show ?case using Cons.IH by (cases "k' = k") (simp_all add: e)
qed

lemma map_of_map_set: "map_of (map_set m k v) = (map_of m)(k \<mapsto> v)"
  by (induction m) (auto simp: fun_eq_iff)

lemma keys_foldl_map_set:
  "map fst (foldl (\<lambda>m (k, v). map_set m k v) m es) =
     map fst m @ first_occurrences (filter (\<lambda>k. k \<notin> fst ` set m) (map fst es))"
proof (induction es arbitrary: m)
  case Nil
  show ?case by simp
next
  case (Cons e es)
  obtain k v where e: "e = (k, v)" by (cases e)
  show ?case
  proof (cases "k \<in> fst ` set m")
    case True
    have "fst ` set (map_set m k v) = fst ` set m"
      using True keys_map_set [of m k v] by (metis list.set_map)
    then show ?thesis
      using True by (simp add: e Cons.IH keys_map_set)
  next
    case False
    have "set (map fst (map_set m k v)) = set (map fst m @ [k])"
      using False by (simp only: keys_map_set if_False)
    then have s: "fst ` set (map_set m k v) = insert k (fst ` set m)"
      by simp
    show ?thesis
      using False by (simp add: e Cons.IH keys_map_set s conj_commute)
  qed
qed

lemma map_of_foldl_map_set:
  "map_of (foldl (\<lambda>m (k, v). map_set m k v) m es) = map_of m ++ map_of (rev es)"
proof (induction es arbitrary: m)
  case Nil
  show ?case by simp
next
  case (Cons e es)
  obtain k v where e: "e = (k, v)" by (cases e)
  show ?case
    by (simp add: e Cons.IH map_of_map_set fun_eq_iff map_add_def split: option.splits)
qed

lemma distinct_first_occurrences: "distinct (first_occurrences xs)"
  and set_first_occurrences: "set (first_occurrences xs) = set xs"
  by (induction xs rule: first_occurrences.induct) auto

lemma map_of_rev_tagged:
  "map_of (rev (map (\<lambda>i. (f i, i)) xs)) k =
     (if filter (\<lambda>r. f r = k) xs = [] then None else Some (last (filter (\<lambda>r. f r = k) xs)))"
  by (induction xs rule: rev_induct) auto

lemma keys_new_Map:
  "map fst (new_Map (map (\<lambda>item. (rawhit.url item, item)) hits))
     = first_occurrences (map rawhit.url hits)"
  by (simp add: new_Map_def keys_foldl_map_set comp_def)

lemma entry_new_Map:
  assumes "(k, v) \<in> set (new_Map (map (\<lambda>item. (rawhit.url item, item)) hits))"
  shows "filter (\<lambda>r. rawhit.url r = k) hits \<noteq> []
         \<and> v = last (filter (\<lambda>r. rawhit.url r = k) hits)"
proof -
  let ?M = "new_Map (map (\<lambda>item. (rawhit.url item, item)) hits)"
  have "distinct (map fst ?M)"
    by (simp only: keys_new_Map distinct_first_occurrences)
  then have "map_of ?M k = Some v"
    using assms by simp
  then have "map_of (rev (map (\<lambda>i. (rawhit.url i, i)) hits)) k = Some v"
    by (simp add: new_Map_def map_of_foldl_map_set)
  then show ?thesis
    by (simp add: map_of_rev_tagged split: if_splits)
qed

lemma entry_new_Map_url:
  assumes "(k, v) \<in> set (new_Map (map (\<lambda>item. (rawhit.url item, item)) hits))"
  shows "rawhit.url v = k"
proof -
  let ?f = "filter (\<lambda>r. rawhit.url r = k) hits"
  from entry_new_Map [OF assms] have ne: "?f \<noteq> []" and v: "v = last ?f" by simp_all
  from ne have "last ?f \<in> set ?f" by (rule last_in_set)
  then show ?thesis by (simp add: v)
qed

lemma keys_uniqueResults:
  "map rawhit.url (uniqueResults hits) = first_occurrences (map rawhit.url hits)"
proof -
  let ?M = "new_Map (map (\<lambda>item. (rawhit.url item, item)) hits)"
  have "map rawhit.url (uniqueResults hits) = map (\<lambda>e. rawhit.url (snd e)) ?M"
    by (simp add: uniqueResults_def map_values_def comp_def)
  also have "\<dots> = map fst ?M"
    by (rule map_cong [OF refl]) (auto dest: entry_new_Map_url)
  finally show ?thesis by (simp only: keys_new_Map)
qed

lemma uniqueResults_sample: "uniqueResults [hit_a1, hit_b, hit_a2] = [hit_a2, hit_b]"
  by (simp add: uniqueResults_def new_Map_def map_values_def hit_a1_def hit_b_def hit_a2_def
      ascii_def)

text \<open>
  Claim C1. Whatever the sequence of raw hits, the deduplicator's output has no two
  entries with the same link, has an entry for exactly the links of the input, and each
  entry is the last hit of the input that carries its link.
\<close>

theorem dedup_one_entry_per_link_last_wins:
  "distinct (map rawhit.url (uniqueResults hits))
   \<and> rawhit.url ` set (uniqueResults hits) = rawhit.url ` set hits
   \<and> (\<forall>h \<in> set (uniqueResults hits).
         h = last (filter (\<lambda>r. rawhit.url r = rawhit.url h) hits))"
proof (intro conjI ballI)
  show "distinct (map rawhit.url (uniqueResults hits))"
    by (simp only: keys_uniqueResults distinct_first_occurrences)
  have "set (map rawhit.url (uniqueResults hits)) = set (map rawhit.url hits)"
    by (simp only: keys_uniqueResults set_first_occurrences)
  then show "rawhit.url ` set (uniqueResults hits) = rawhit.url ` set hits" by simp
next
  fix h assume "h \<in> set (uniqueResults hits)"
  then obtain k where kh: "(k, h) \<in> set (new_Map (map (\<lambda>item. (rawhit.url item, item)) hits))"
    by (auto simp: uniqueResults_def map_values_def)
  have "rawhit.url h = k" using kh by (rule entry_new_Map_url)
  with entry_new_Map [OF kh]
  show "h = last (filter (\<lambda>r. rawhit.url r = rawhit.url h) hits)" by simp
qed

theorem dedup_one_entry_per_link_last_wins_witness:
  "hit_a2 \<in> set (uniqueResults [hit_a1, hit_b, hit_a2])
   \<and> hit_a2 = last (filter (\<lambda>r. rawhit.url r = rawhit.url hit_a2) [hit_a1, hit_b, hit_a2])
   \<and> distinct (map rawhit.url (uniqueResults [hit_a1, hit_b, hit_a2]))"
proof -
  have m: "hit_a2 \<in> set (uniqueResults [hit_a1, hit_b, hit_a2])"
    by (simp add: uniqueResults_sample)
  from dedup_one_entry_per_link_last_wins [of "[hit_a1, hit_b, hit_a2]"] m
  show ?thesis by blast
qed

text \<open>
  Claim C10. The links of the deduplicator's output are the distinct links of the
  input in the order in which each first occurs there.
\<close>

theorem dedup_order_first_occurrence:
  "map rawhit.url (uniqueResults hits) = first_occurrences (map rawhit.url hits)"
  by (rule keys_uniqueResults)

theorem dedup_order_first_occurrence_witness:
  "map rawhit.url (uniqueResults [hit_b, hit_a1, hit_b, hit_a2])
     = [rawhit.url hit_b, rawhit.url hit_a1]"
proof -
  have "rawhit.url hit_a2 = rawhit.url hit_a1" "rawhit.url hit_b \<noteq> rawhit.url hit_a1"
    by (simp_all add: hit_a1_def hit_a2_def hit_b_def ascii_def)
  then show ?thesis
    using dedup_order_first_occurrence [of "[hit_b, hit_a1, hit_b, hit_a2]"] by simp
qed

section \<open>Properties of the sorter\<close>

lemma mset_sort_insert: "mset (sort_insert c x ys) = add_mset x (mset ys)"
  by (induction ys) simp_all

lemma mset_array_sort: "mset (array_sort c xs) = mset xs"
  by (induction xs) (simp_all add: array_sort_def mset_sort_insert)

lemma set_sort_insert: "set (sort_insert c x ys) = insert x (set ys)"
  by (induction ys) auto

lemma set_array_sort: "set (array_sort c xs) = set xs"
  by (induction xs) (simp_all add: array_sort_def set_sort_insert)

lemma sortCompare_valid:
  assumes "dateValue parse x = Some a" "dateValue parse y = Some b"
  shows "sortCompare (compareFn parse) x y = a - b"
  using assms by (simp add: sortCompare_def compareFn_def)

lemma date_le_valid:
  assumes "dateValue parse x = Some a" "dateValue parse y = Some b"
  shows "date_le parse x y \<longleftrightarrow> a \<le> b"
  using assms by (simp add: date_le_def)

lemma sorted_sort_insert:
  assumes "sorted_wrt (date_le parse) ys"
    and "dateValue parse x \<noteq> None"
    and "\<forall>y \<in> set ys. dateValue parse y \<noteq> None"
  shows "sorted_wrt (date_le parse) (sort_insert (compareFn parse) x ys)"
  using assms
proof (induction ys)
  case Nil
  show ?case by simp
next
  case (Cons y ys)
  obtain a where a: "dateValue parse x = Some a" using Cons.prems(2) by auto
  obtain b where b: "dateValue parse y = Some b" using Cons.prems(3) by auto
  have valid: "\<forall>z \<in> set ys. dateValue parse z \<noteq> None" using Cons.prems(3) by simp
  have y_le: "\<forall>z \<in> set ys. date_le parse y z" using Cons.prems(1) by simp
  show ?case
  proof (cases "a \<le> b")
    case True
    have "date_le parse x y" using True by (simp add: date_le_valid [OF a b])
    moreover have "\<forall>z \<in> set ys. date_le parse x z"
    proof
      fix z assume z: "z \<in> set ys"
      then obtain c where c: "dateValue parse z = Some c" using valid by auto
      have "date_le parse y z" using y_le z by simp
      then have "b \<le> c" by (simp add: date_le_valid [OF b c])
      then show "date_le parse x z" using True by (simp add: date_le_valid [OF a c])
    qed
    ultimately show ?thesis
      using True Cons.prems(1) by (simp add: sortCompare_valid [OF a b])
  next
    case False
    have "date_le parse y x" using False by (simp add: date_le_valid [OF b a])
    moreover have "sorted_wrt (date_le parse) (sort_insert (compareFn parse) x ys)"
      using Cons.IH Cons.prems valid by simp
    ultimately show ?thesis
      using False y_le by (simp add: sortCompare_valid [OF a b] set_sort_insert)
  qed
qed

lemma sorted_array_sort:
  assumes "\<forall>e \<in> set xs. dateValue parse e \<noteq> None"
  shows "sorted_wrt (date_le parse) (array_sort (compareFn parse) xs)"
  using assms
proof (induction xs)
  case Nil
  show ?case by (simp add: array_sort_def)
next
  case (Cons x xs)
  have "sorted_wrt (date_le parse) (array_sort (compareFn parse) xs)"
    using Cons by simp
  moreover have "dateValue parse x \<noteq> None" using Cons.prems by simp
  moreover have "\<forall>y \<in> set (array_sort (compareFn parse) xs). dateValue parse y \<noteq> None"
    using Cons.prems by (simp add: set_array_sort)
  ultimately have "sorted_wrt (date_le parse)
      (sort_insert (compareFn parse) x (array_sort (compareFn parse) xs))"
    by (rule sorted_sort_insert)
  then show ?case by (simp add: array_sort_def)
qed

subsection \<open>The samples\<close>

lemma dateValue_march: "dateValue parseYMD ev_march = Some 1772323200000"
  by (simp add: dateValue_def ev_march_def sample_event_def sample_session_def parseYMD_def
      decimal_def ascii_def dayNumber_def DayFromYear_def daysInMonth_def isLeap_def upt_rec)

lemma dateValue_january: "dateValue parseYMD ev_january = Some 1768003200000"
  by (simp add: dateValue_def ev_january_def sample_event_def sample_session_def parseYMD_def
      decimal_def ascii_def dayNumber_def DayFromYear_def daysInMonth_def isLeap_def upt_rec)

lemma dateValue_undated: "dateValue parseYMD ev_undated = None"
  by (simp add: dateValue_def ev_undated_def sample_event_def sample_session_def)

lemma z_array_strings: "z_array z_string (JArr (map JStr ds)) = Some ds"
  by (simp add: z_array_def z_string_def list_all_iff comp_def)

lemma SessionSchema_strings:
  "SessionSchema (JObj [(ascii ''location'', JStr l), (ascii ''date'', JArr (map JStr ds)),
                        (ascii ''url'', JStr u)])
     = Some \<lparr>location = l, date = ds, session.url = u\<rparr>"
  by (simp add: SessionSchema_def field_def required_def z_array_strings z_string_def ascii_def)

lemma SessionSchema_sample: "SessionSchema (sample_session_json ds) = Some (sample_session ds)"
  by (simp add: sample_session_json_def sample_session_def SessionSchema_strings)

lemma EventObjectSchema_sample:
  "EventObjectSchema (sample_event_json t (map sample_session_json dss))
     = Some (sample_event t (map sample_session dss))"
proof -
  have "z_array SessionSchema (JArr (map sample_session_json dss))
          = Some (map sample_session dss)"
    by (simp add: z_array_def SessionSchema_sample list_all_iff comp_def)
  then show ?thesis
    by (simp add: EventObjectSchema_def sample_event_json_def sample_event_def field_def
        required_def optional_def z_string_def z_enum_def EventCategoryEnum_def
        SourceEnum_def ascii_def)
qed

lemma EventSchema_sample: "EventSchema sample_object = Some [ev_march, ev_undated, ev_january]"
proof -
  have "EventObjectSchema (sample_event_json t [sample_session_json ds])
          = Some (sample_event t [sample_session ds])" for t ds
    using EventObjectSchema_sample [of t "[ds]"] by simp
  then show ?thesis
    by (simp add: EventSchema_def sample_object_def field_def required_def z_array_def
        ev_march_def ev_undated_def ev_january_def)
qed

lemma EventSchema_dated: "EventSchema dated_object = Some [ev_march, ev_january]"
proof -
  have "EventObjectSchema (sample_event_json t [sample_session_json ds])
          = Some (sample_event t [sample_session ds])" for t ds
    using EventObjectSchema_sample [of t "[ds]"] by simp
  then show ?thesis
    by (simp add: EventSchema_def dated_object_def field_def required_def z_array_def
        ev_march_def ev_january_def)
qed

lemma extraction_sample:
  "extraction sample_world sample_text sites = Inr [ev_march, ev_undated, ev_january]"
  by (simp add: extraction_def Let_def generateObject_def sample_world_def EventSchema_sample)

lemma extraction_dated:
  "extraction dated_world sample_text sites = Inr [ev_march, ev_january]"
  by (simp add: extraction_def Let_def generateObject_def dated_world_def sample_world_def
      EventSchema_dated)

lemma extraction_exceeded:
  "extraction exceeded_world sample_text sites = Inl (ErrorObject (ascii ''limit exceeded''))"
  by (simp add: extraction_def Let_def generateObject_def exceeded_world_def sample_world_def)

lemma extraction_offline:
  "extraction offline_world sample_text sites = Inl (ErrorObject (ascii ''network down''))"
  by (simp add: extraction_def Let_def generateObject_def offline_world_def sample_world_def)

lemma sort_sample_unchanged:
  "array_sort (compareFn parseYMD) [ev_march, ev_undated, ev_january]
     = [ev_march, ev_undated, ev_january]"
  by (simp add: array_sort_def sortCompare_def compareFn_def dateValue_march
      dateValue_january dateValue_undated)

lemma main_sample: "main sample_world sample_text = Inr [ev_march, ev_undated, ev_january]"
proof -
  have "dateParse sample_world = parseYMD" by (simp add: sample_world_def)
  then show ?thesis
    by (simp add: main_def main_with_def extraction_sample sort_sample_unchanged)
qed

subsection \<open>Ordering of the published collection\<close>

text \<open>
  Claim C3, as stated, fails: the batch run over the sample world publishes the March
  event before the January event, because the event between them has no leading date
  and every comparison with it counts as a tie.
\<close>

theorem sorted_output_counterexample:
  "main sample_world sample_text = Inr [ev_march, ev_undated, ev_january]
   \<and> \<not> nondecreasing_by_date (dateParse sample_world) [ev_march, ev_undated, ev_january]"
proof -
  have "dateParse sample_world = parseYMD" by (simp add: sample_world_def)
  then show ?thesis
    by (simp add: main_sample nondecreasing_by_date_def date_le_def dateValue_march
        dateValue_january dateValue_undated)
qed

text \<open>
  Claim C3, amended. When every event returned by the extraction step has a first
  session whose first date parses as a date, the batch run publishes the events sorted
  by the sorter, and that sequence is non-decreasing in the date of the first date of the
  first session.
\<close>

theorem sorted_when_leading_dates_valid:
  assumes "extraction w txt sites = Inr events"
    and "\<forall>e \<in> set events. dateValue (dateParse w) e \<noteq> None"
  shows "main_with w txt sites = Inr (array_sort (compareFn (dateParse w)) events)
         \<and> nondecreasing_by_date (dateParse w) (array_sort (compareFn (dateParse w)) events)"
  using assms by (simp add: main_with_def nondecreasing_by_date_def sorted_array_sort)

theorem sorted_when_leading_dates_valid_witness:
  "extraction dated_world sample_text TARGET_SITES = Inr [ev_march, ev_january]
   \<and> dateValue (dateParse dated_world) ev_march \<noteq> None
   \<and> dateValue (dateParse dated_world) ev_january \<noteq> None
   \<and> main_with dated_world sample_text TARGET_SITES = Inr [ev_january, ev_march]
   \<and> nondecreasing_by_date (dateParse dated_world) [ev_january, ev_march]"
proof -
  have p: "dateParse dated_world = parseYMD" by (simp add: dated_world_def sample_world_def)
  have v: "\<forall>e \<in> set [ev_march, ev_january]. dateValue (dateParse dated_world) e \<noteq> None"
    by (simp add: p dateValue_march dateValue_january)
  have s: "array_sort (compareFn parseYMD) [ev_march, ev_january] = [ev_january, ev_march]"
    by (simp add: array_sort_def sortCompare_def compareFn_def dateValue_march
        dateValue_january)
  from sorted_when_leading_dates_valid [OF extraction_dated v, of TARGET_SITES]
  show ?thesis
    using v by (simp add: p s extraction_dated)
qed

text \<open>
  Claim C7. The events the batch run publishes are the events the extraction step
  returned, reordered and nothing else: as multisets they are equal. The on-demand
  handler answers with the returned events as they are. No event is added, dropped or
  changed after the extraction step.
\<close>

theorem published_is_reordering_of_extracted:
  assumes "extraction w txt sites = Inr events"
  shows "(\<exists>out. main_with w txt sites = Inr out \<and> mset out = mset events)
         \<and> (sites = TARGET_SITES \<longrightarrow>
              POST w txt (Inr (JObj fs)) = \<lparr>status = 200, body = EventsBody events\<rparr>)"
  using assms
  by (auto simp: main_with_def mset_array_sort POST_def POST_try_def destructure_prompt_def)

theorem published_is_reordering_of_extracted_witness:
  "extraction sample_world sample_text TARGET_SITES = Inr [ev_march, ev_undated, ev_january]
   \<and> (\<exists>out. main_with sample_world sample_text TARGET_SITES = Inr out
          \<and> mset out = mset [ev_march, ev_undated, ev_january])
   \<and> POST sample_world sample_text (Inr (JObj []))
       = \<lparr>status = 200, body = EventsBody [ev_march, ev_undated, ev_january]\<rparr>"
  using published_is_reordering_of_extracted
          [OF extraction_sample, of TARGET_SITES "[]"]
  by (simp add: extraction_sample)

section \<open>Properties of the search collector\<close>

lemma allRawResults_failed:
  assumes "tvly (site_query kw s) (site_options s) = Inl e"
  shows "allRawResults tvly kw (pre @ s # post) = allRawResults tvly kw (pre @ post)"
  using assms by (simp add: allRawResults_def searchPromise_def Let_def)

lemma allRawResults_replies:
  assumes "\<forall>s \<in> set sites. tvly (site_query kw s) (site_options s) = Inr (reply s)"
  shows "allRawResults tvly kw sites = concat (map reply sites)"
proof -
  have "map (searchPromise tvly kw) sites = map reply sites"
    using assms by (intro map_cong refl) (simp add: searchPromise_def Let_def)
  then show ?thesis by (simp only: allRawResults_def)
qed

lemma generateObject_sample:
  "generateObject sample_world p = Inr [ev_march, ev_undated, ev_january]"
  by (simp add: generateObject_def sample_world_def EventSchema_sample)

text \<open>
  Claim C2. Let the search call of one source throw and let every other source's call
  return its reply. Then the merged sequence of raw hits is the concatenation of the
  other sources' replies, in the order of the sources, and nothing else. The batch run
  does not end with the search failure: it goes on to the extraction call on those
  hits, and ends as that call ends, publishing the sorted events when the call
  returns them. It also ends exactly as the run over the other sources alone.
\<close>

theorem single_source_failure_isolated:
  assumes "tvly_search w (site_query (searchString (getDynamicDateParams (today w))) s)
             (site_options s) = Inl e"
    and "\<forall>s' \<in> set (pre @ post).
           tvly_search w (site_query (searchString (getDynamicDateParams (today w))) s')
             (site_options s') = Inr (reply s')"
  shows "allRawResults (tvly_search w) (searchString (getDynamicDateParams (today w)))
             (pre @ s # post)
           = concat (map reply (pre @ post))
         \<and> main_with w txt (pre @ s # post)
           = (case generateObject w
                     (extraction_prompt txt (startDate (getDynamicDateParams (today w)))
                        (endDate (getDynamicDateParams (today w)))
                        (searchContext (uniqueResults (concat (map reply (pre @ post))))))
              of Inl err \<Rightarrow> Inl err
               | Inr events \<Rightarrow> Inr (array_sort (compareFn (dateParse w)) events))
         \<and> main_with w txt (pre @ s # post) = main_with w txt (pre @ post)"
proof -
  let ?kw = "searchString (getDynamicDateParams (today w))"
  have same: "allRawResults (tvly_search w) ?kw (pre @ s # post)
          = allRawResults (tvly_search w) ?kw (pre @ post)"
    using assms(1) by (rule allRawResults_failed [of "tvly_search w" ?kw s e pre post])
  have others: "allRawResults (tvly_search w) ?kw (pre @ post) = concat (map reply (pre @ post))"
    using assms(2) by (rule allRawResults_replies)
  have merged: "allRawResults (tvly_search w) ?kw (pre @ s # post)
          = concat (map reply (pre @ post))"
    by (simp only: same others)
  have run: "main_with w txt (pre @ s # post)
      = (case generateObject w
                (extraction_prompt txt (startDate (getDynamicDateParams (today w)))
                   (endDate (getDynamicDateParams (today w)))
                   (searchContext (uniqueResults (concat (map reply (pre @ post))))))
         of Inl err \<Rightarrow> Inl err
          | Inr events \<Rightarrow> Inr (array_sort (compareFn (dateParse w)) events))"
    by (simp only: main_with_def extraction_def Let_def merged)
  have alone: "main_with w txt (pre @ s # post) = main_with w txt (pre @ post)"
    by (simp only: main_with_def extraction_def Let_def same)
  from merged run alone show ?thesis by (intro conjI)
qed

theorem single_source_failure_isolated_witness:
  "tvly_search sample_world
      (site_query (searchString (getDynamicDateParams (today sample_world))) billboard)
      (site_options billboard) = Inl (ErrorObject (ascii ''fetch failed''))
   \<and> tvly_search sample_world
      (site_query (searchString (getDynamicDateParams (today sample_world))) kktix)
      (site_options kktix) = Inr [hit_a1, hit_b, hit_a2]
   \<and> allRawResults (tvly_search sample_world)
        (searchString (getDynamicDateParams (today sample_world))) [kktix, billboard]
       = [hit_a1, hit_b, hit_a2]
   \<and> main_with sample_world sample_text [kktix, billboard]
       = Inr [ev_march, ev_undated, ev_january]"
proof -
  let ?kw = "searchString (getDynamicDateParams (today sample_world))"
  have h: "tvly_search sample_world (site_query ?kw billboard) (site_options billboard)
             = Inl (ErrorObject (ascii ''fetch failed''))"
    by (simp add: sample_world_def site_options_def billboard_def)
  have k: "tvly_search sample_world (site_query ?kw kktix) (site_options kktix)
             = Inr [hit_a1, hit_b, hit_a2]"
    by (simp add: sample_world_def site_options_def kktix_def ascii_def)
  have o: "\<forall>s' \<in> set ([kktix] @ []).
             tvly_search sample_world (site_query ?kw s') (site_options s')
               = Inr ((\<lambda>s. [hit_a1, hit_b, hit_a2]) s')"
    using k by simp
  have p: "dateParse sample_world = parseYMD" by (simp add: sample_world_def)
  from single_source_failure_isolated [OF h o, of sample_text]
  show ?thesis
    using h k by (simp add: generateObject_sample p sort_sample_unchanged)
qed

section \<open>Properties of the schema\<close>

text \<open>
  Claim C5, as stated, fails: the session schema accepts a date array with no element
  and one with three elements, and the batch run over the sample world publishes a
  session whose date array is empty.
\<close>

theorem session_date_length_counterexample:
  "SessionSchema (sample_session_json []) = Some (sample_session [])
   \<and> SessionSchema (sample_session_json [ascii ''2026/03/01'', ascii ''2026/03/02'',
        ascii ''2026/03/03''])
       = Some (sample_session [ascii ''2026/03/01'', ascii ''2026/03/02'', ascii ''2026/03/03''])
   \<and> main sample_world sample_text = Inr [ev_march, ev_undated, ev_january]
   \<and> sessions ev_undated = [sample_session []]
   \<and> length (date (sample_session [])) = 0"
  by (simp add: SessionSchema_sample main_sample ev_undated_def sample_event_def
      sample_session_def)

text \<open>
  Claim C5, amended. The session schema accepts a date array of any length whose
  elements are strings, so arrays of one and of two dates are accepted and so are the
  empty array and arrays of three; the parsed session carries the array as it came.
\<close>

theorem session_date_any_length:
  "SessionSchema (JObj [(ascii ''location'', JStr l), (ascii ''date'', JArr (map JStr ds)),
                        (ascii ''url'', JStr u)])
     = Some \<lparr>location = l, date = ds, session.url = u\<rparr>"
  by (rule SessionSchema_strings)

theorem session_date_any_length_witness:
  "SessionSchema (JObj [(ascii ''location'', JStr (ascii ''Taipei'')),
                        (ascii ''date'', JArr [JStr (ascii ''2026/02/15''),
                                               JStr (ascii ''2026/03/10'')]),
                        (ascii ''url'', JStr (ascii ''https://kktix.com/t''))])
     = Some \<lparr>location = ascii ''Taipei'',
             date = [ascii ''2026/02/15'', ascii ''2026/03/10''],
             session.url = ascii ''https://kktix.com/t''\<rparr>"
  using session_date_any_length
          [of "ascii ''Taipei''" "[ascii ''2026/02/15'', ascii ''2026/03/10'']"
              "ascii ''https://kktix.com/t''"]
  by simp

section \<open>Properties of the on-demand handler\<close>

lemma exceeded_includes:
  "\<not> includes_js (ascii ''limit exceeded'') (ascii ''429'')"
  "\<not> includes_js (ascii ''limit exceeded'') (ascii ''quota'')"
  "includes_js (ascii ''limit exceeded'') (ascii ''exceeded'')"
  by (simp_all add: ascii_def)

lemma offline_includes:
  "\<not> includes_js (ascii ''network down'') (ascii ''429'')"
  "\<not> includes_js (ascii ''network down'') (ascii ''quota'')"
  "\<not> includes_js (ascii ''network down'') (ascii ''exceeded'')"
  by (simp_all add: ascii_def)

text \<open>
  Claim C4, as stated, fails: an extraction call that throws an error whose message is
  "limit exceeded", which holds neither "429" nor "quota", is answered with status 429
  and the code QUOTA_EXCEEDED, not with status 500.
\<close>

theorem other_error_counterexample:
  "extraction exceeded_world sample_text TARGET_SITES
     = Inl (ErrorObject (ascii ''limit exceeded''))
   \<and> \<not> includes_js (ascii ''limit exceeded'') (ascii ''429'')
   \<and> \<not> includes_js (ascii ''limit exceeded'') (ascii ''quota'')
   \<and> POST exceeded_world sample_text (Inr (JObj []))
       = \<lparr>status = 429, body = ErrorBody (ascii ''QUOTA_EXCEEDED'') quota_text\<rparr>"
  using exceeded_includes
  by (simp add: extraction_exceeded POST_def POST_try_def destructure_prompt_def
      POST_catch_def Let_def error_message_def field_def)

text \<open>
  Claim C4, amended. When the extraction call of an on-demand request throws, the
  response has status 429 and the code QUOTA_EXCEEDED if the error's message holds
  "quota", "429" or "exceeded", and status 500 and the code INTERNAL_ERROR otherwise.
\<close>

theorem extraction_error_response:
  assumes "extraction w txt TARGET_SITES = Inl error"
  shows "POST w txt (Inr (JObj fs)) =
     (if includes_js (error_message error) (ascii ''quota'')
         \<or> includes_js (error_message error) (ascii ''429'')
         \<or> includes_js (error_message error) (ascii ''exceeded'')
      then \<lparr>status = 429, body = ErrorBody (ascii ''QUOTA_EXCEEDED'') quota_text\<rparr>
      else \<lparr>status = 500,
            body = ErrorBody (ascii ''INTERNAL_ERROR'')
                     ([20282, 26381, 22120, 37679, 35492, 65306] @ error_message error)\<rparr>)"
  using assms
  by (simp add: POST_def POST_try_def destructure_prompt_def POST_catch_def Let_def)

theorem extraction_error_response_witness:
  "extraction offline_world sample_text TARGET_SITES
     = Inl (ErrorObject (ascii ''network down''))
   \<and> POST offline_world sample_text (Inr (JObj []))
       = \<lparr>status = 500,
          body = ErrorBody (ascii ''INTERNAL_ERROR'')
                   ([20282, 26381, 22120, 37679, 35492, 65306] @ ascii ''network down'')\<rparr>"
  using extraction_error_response [OF extraction_offline, of "[]"]
    offline_includes
  by (simp add: extraction_offline error_message_def)

text \<open>
  Claim C8. Two on-demand requests whose bodies differ only in the value of the
  \<open>prompt\<close> property get the same response, for the same clock and the same
  collaborators: the handler reads the property and uses it nowhere, so neither the
  search queries nor the extraction prompt nor the answer depend on it.
\<close>

theorem caller_prompt_ignored:
  "POST w txt (Inr (JObj (before @ (ascii ''prompt'', p1) # after)))
     = POST w txt (Inr (JObj (before @ (ascii ''prompt'', p2) # after)))"
  by (simp add: POST_def POST_try_def destructure_prompt_def)

theorem caller_prompt_ignored_witness:
  "POST sample_world sample_text (Inr (JObj [(ascii ''prompt'', JStr (ascii ''jazz''))]))
     = POST sample_world sample_text (Inr (JObj [(ascii ''prompt'', JStr (ascii ''opera''))]))
   \<and> POST sample_world sample_text (Inr (JObj [(ascii ''prompt'', JStr (ascii ''jazz''))]))
     = \<lparr>status = 200, body = EventsBody [ev_march, ev_undated, ev_january]\<rparr>"
proof -
  have "POST sample_world sample_text (Inr (JObj [(ascii ''prompt'', JStr (ascii ''jazz''))]))
          = \<lparr>status = 200, body = EventsBody [ev_march, ev_undated, ev_january]\<rparr>"
    by (simp add: POST_def POST_try_def destructure_prompt_def extraction_sample)
  then show ?thesis
    using caller_prompt_ignored
            [of sample_world sample_text "[]" "JStr (ascii ''jazz'')" "[]"
                "JStr (ascii ''opera'')"]
    by simp
qed

section \<open>Properties of the query planner\<close>

lemma setMonth_keeps_early_day:
  assumes "getDate d \<le> 28"
  shows "setMonth d m =
           \<lparr>getFullYear = getFullYear d + int (m div 12), getMonth = m mod 12,
            getDate = getDate d\<rparr>"
  using assms by (simp add: setMonth_def Let_def daysInMonth_def)

text \<open>
  Claim C6 at 31 January 2026. The window runs from 2026/01/31 to 2026/03/31, and the
  three keywords name January, March and March: setting the month of the 31st to
  February runs on into March, so February is not among them.
\<close>

theorem planner_on_31_January:
  "getDynamicDateParams \<lparr>getFullYear = 2026, getMonth = 0, getDate = 31\<rparr> =
     \<lparr>startDate = ascii ''2026/01/31'', endDate = ascii ''2026/03/31'',
      searchString = [34] @ ascii ''2026 1'' @ [26376, 34] @ ascii '' OR ''
                     @ [34] @ ascii ''2026 3'' @ [26376, 34] @ ascii '' OR ''
                     @ [34] @ ascii ''2026 3'' @ [26376, 34]\<rparr>"
  by (simp add: getDynamicDateParams_def monthKeyword_def formatDate_def setMonth_def
      daysInMonth_def isLeap_def padStart_def String_of_int_def digits.simps ascii_def upt_rec)

section \<open>Properties of the configuration\<close>

text \<open>
  Claim C9 with an empty environment. The batch script still hands the search client
  its key, the literal written in the script; the environment is not consulted for it.
  The handler and the language-model provider get \<open>undefined\<close>.
\<close>

theorem keys_with_empty_environment:
  "script_tavily_apiKey literal Map.empty = Some literal
   \<and> handler_tavily_apiKey Map.empty = None
   \<and> googleAI_apiKey Map.empty = None"
  by (simp add: script_tavily_apiKey_def handler_tavily_apiKey_def googleAI_apiKey_def)

end
